theory Spec2Isabelle
  imports Complex_Main
begin

section \<open>The Dirichlet node of bayespy: arrays, errors and the numerical library\<close>

text \<open>
  The module \<^verbatim>\<open>bayespy/inference/vmp/nodes/dirichlet.py\<close> computes with numpy arrays.
  An array is its shape together with its entries in row-major order, so that the trailing
  axis of an array of shape \<open>(..., K)\<close> is made of consecutive blocks of \<open>K\<close> entries.
  The entries (float64 in the program) are idealised as real numbers: rounding, infinities
  and NaN are outside this development. The transcendental functions of the numerical
  libraries (\<^verbatim>\<open>np.log\<close>, \<^verbatim>\<open>special.gammaln\<close>, \<^verbatim>\<open>special.psi\<close>,
  \<^verbatim>\<open>special.polygamma\<close>) are parameters of the functions that call them: every theorem
  holds for whatever these functions compute.
\<close>

record ndarray =
  shape :: "nat list"
  elems :: "real list"

definition wf_array :: "ndarray \<Rightarrow> bool" where
  "wf_array a \<longleftrightarrow> length (elems a) = prod_list (shape a)"

definition ndim :: "ndarray \<Rightarrow> nat" where
  "ndim a = length (shape a)"

datatype error = ValueError string | IndexError | NotImplementedError

subsection \<open>Reductions and element-wise functions\<close>

text \<open>
  The trailing axis: its length, the number of vectors along it, and the \<open>b\<close>-th vector.
  A 0-dimensional array is reduced as one vector of one entry (numpy lets \<^verbatim>\<open>axis=-1\<close>
  through for scalars).
\<close>

definition axis_len :: "ndarray \<Rightarrow> nat" where
  "axis_len a = (if shape a = [] then 1 else last (shape a))"

definition nrows :: "ndarray \<Rightarrow> nat" where
  "nrows a = prod_list (butlast (shape a))"

definition row :: "ndarray \<Rightarrow> nat \<Rightarrow> real list" where
  "row a b = take (axis_len a) (drop (b * axis_len a) (elems a))"

text \<open>\<^verbatim>\<open>np.sum(a, axis=-1, keepdims=keepdims)\<close>\<close>

definition np_sum :: "bool \<Rightarrow> ndarray \<Rightarrow> ndarray" where
  "np_sum keepdims a =
     (if shape a = [] then a
      else \<lparr>shape = butlast (shape a) @ (if keepdims then [1] else []),
            elems = map (\<lambda>b. sum_list (row a b)) [0..<nrows a]\<rparr>)"

text \<open>A unary function applied to every entry (\<^verbatim>\<open>np.log(a)\<close>, \<^verbatim>\<open>special.psi(a)\<close>).\<close>

definition ufunc :: "(real \<Rightarrow> real) \<Rightarrow> ndarray \<Rightarrow> ndarray" where
  "ufunc f a = \<lparr>shape = shape a, elems = map f (elems a)\<rparr>"

text \<open>\<^verbatim>\<open>np.any(a < c)\<close>, \<^verbatim>\<open>np.any(a > c)\<close> and \<^verbatim>\<open>np.any(a <= c)\<close>\<close>

definition any_less :: "ndarray \<Rightarrow> real \<Rightarrow> bool" where
  "any_less a c \<longleftrightarrow> (\<exists>x\<in>set (elems a). x < c)"

definition any_greater :: "ndarray \<Rightarrow> real \<Rightarrow> bool" where
  "any_greater a c \<longleftrightarrow> (\<exists>x\<in>set (elems a). c < x)"

definition any_less_equal :: "ndarray \<Rightarrow> real \<Rightarrow> bool" where
  "any_less_equal a c \<longleftrightarrow> (\<exists>x\<in>set (elems a). x \<le> c)"

text \<open>
  \<^verbatim>\<open>np.allclose(a, b)\<close> with the default tolerances \<^verbatim>\<open>rtol=1e-05, atol=1e-08\<close>:
  every entry \<open>x\<close> of \<open>a\<close> satisfies \<open>|x - b| \<le> atol + rtol * |b|\<close>.
\<close>

definition rtol :: real where
  "rtol = 1 / 10 ^ 5"

definition atol :: real where
  "atol = 1 / 10 ^ 8"

definition np_allclose :: "ndarray \<Rightarrow> real \<Rightarrow> bool" where
  "np_allclose a b \<longleftrightarrow> (\<forall>x\<in>set (elems a). \<bar>x - b\<bar> \<le> atol + rtol * \<bar>b\<bar>)"

subsection \<open>Broadcasting binary operations\<close>

text \<open>
  numpy aligns the two shapes at the trailing axis; two axis lengths are compatible when
  they are equal or one of them is 1, and a missing leading axis counts as 1. Both
  functions below take the shapes reversed (trailing axis first). \<open>src_index ds ts i\<close> is
  the row-major position, in an operand of shape \<open>ds\<close>, of the entry that is used at the
  row-major position \<open>i\<close> of the result of shape \<open>ts\<close>.
\<close>

fun broadcast_shapes :: "nat list \<Rightarrow> nat list \<Rightarrow> nat list option" where
  "broadcast_shapes [] ts = Some ts"
| "broadcast_shapes (d # ds) [] = Some (d # ds)"
| "broadcast_shapes (d # ds) (t # ts) =
     (if d = t \<or> t = 1 then map_option ((#) d) (broadcast_shapes ds ts)
      else if d = 1 then map_option ((#) t) (broadcast_shapes ds ts)
      else None)"

fun src_index :: "nat list \<Rightarrow> nat list \<Rightarrow> nat \<Rightarrow> nat" where
  "src_index (d # ds) (t # ts) i =
     src_index ds ts (i div t) * d + (if d = 1 then 0 else i mod t)"
| "src_index ds ts i = 0"

definition np_binop :: "(real \<Rightarrow> real \<Rightarrow> real) \<Rightarrow> ndarray \<Rightarrow> ndarray \<Rightarrow> error + ndarray" where
  "np_binop f a b =
     (case broadcast_shapes (rev (shape a)) (rev (shape b)) of
        None \<Rightarrow> Inl (ValueError ''operands could not be broadcast together'')
      | Some ts \<Rightarrow>
          Inr \<lparr>shape = rev ts,
               elems = map (\<lambda>i. f (elems a ! src_index (rev (shape a)) ts i)
                                  (elems b ! src_index (rev (shape b)) ts i))
                           [0..<prod_list ts]\<rparr>)"

definition np_subtract :: "ndarray \<Rightarrow> ndarray \<Rightarrow> error + ndarray" where
  "np_subtract = np_binop (-)"

definition np_multiply :: "ndarray \<Rightarrow> ndarray \<Rightarrow> error + ndarray" where
  "np_multiply = np_binop (*)"

definition np_divide :: "ndarray \<Rightarrow> ndarray \<Rightarrow> error + ndarray" where
  "np_divide = np_binop (/)"

text \<open>
  \<^verbatim>\<open>np.asanyarray\<close> of a Python list of arrays: arrays of one shape are stacked along a
  new leading axis, the empty list gives an empty 1-dimensional array, and arrays of
  different shapes are refused (inhomogeneous shape).
\<close>

definition asanyarray_list :: "ndarray list \<Rightarrow> error + ndarray" where
  "asanyarray_list xs =
     (case xs of
        [] \<Rightarrow> Inr \<lparr>shape = [0], elems = []\<rparr>
      | a # rest \<Rightarrow>
          if \<forall>b\<in>set rest. shape b = shape a
          then Inr \<lparr>shape = length xs # shape a, elems = concat (map elems xs)\<rparr>
          else Inl (ValueError ''inhomogeneous shape''))"

section \<open>The operations of the module\<close>

subsection \<open>DirichletPriorMoments\<close>

definition DirichletPriorMoments_compute_fixed_moments ::
  "(real \<Rightarrow> real) \<Rightarrow> ndarray \<Rightarrow> error + ndarray list" where
  "DirichletPriorMoments_compute_fixed_moments gammaln alpha =
     (if ndim alpha < 1 then Inl (ValueError ''The prior sample sizes must be a vector'')
      else if any_less alpha 0
        then Inl (ValueError ''The prior sample sizes must be non-negative'')
      else
        let gammaln_sum = ufunc gammaln (np_sum False alpha);
            sum_gammaln = np_sum False (ufunc gammaln alpha)
        in (case np_subtract gammaln_sum sum_gammaln of
              Inl e \<Rightarrow> Inl e
            | Inr z \<Rightarrow> Inr [alpha, z]))"

subsection \<open>DirichletMoments\<close>

definition DirichletMoments_compute_fixed_moments ::
  "(real \<Rightarrow> real) \<Rightarrow> ndarray \<Rightarrow> error + ndarray list" where
  "DirichletMoments_compute_fixed_moments np_log p =
     (if ndim p < 1 then Inl (ValueError ''Probabilities must be given as a vector'')
      else if any_less p 0 \<or> any_greater p 1
        then Inl (ValueError ''Probabilities must be in range [0,1]'')
      else if \<not> np_allclose (np_sum False p) 1
        then Inl (ValueError ''Probabilities must sum to one'')
      else
        (case np_divide p (np_sum True p) of
           Inl e \<Rightarrow> Inl e
         | Inr p' \<Rightarrow> (let logp = ufunc np_log p'; u = [logp] in Inr u)))"

subsection \<open>DirichletDistribution\<close>

definition compute_message_to_parent :: "'p \<Rightarrow> 'i \<Rightarrow> 'u \<Rightarrow> 'v \<Rightarrow> error + 'r" where
  "compute_message_to_parent parent index u_self u_alpha = Inl NotImplementedError"

text \<open>\<^verbatim>\<open>u_alpha[0]\<close> raises IndexError on an empty list.\<close>

definition compute_phi_from_parents :: "ndarray list \<Rightarrow> 'm \<Rightarrow> error + ndarray list" where
  "compute_phi_from_parents u_alpha mask' =
     (case u_alpha of [] \<Rightarrow> Inl IndexError | u0 # _ \<Rightarrow> Inr [u0])"

definition compute_moments_and_cgf ::
  "(real \<Rightarrow> real) \<Rightarrow> (real \<Rightarrow> real) \<Rightarrow> ndarray list \<Rightarrow> 'm \<Rightarrow> error + (ndarray list \<times> ndarray)" where
  "compute_moments_and_cgf psi gammaln phi mask' =
     (case asanyarray_list phi of
        Inl e \<Rightarrow> Inl e
      | Inr phi_array \<Rightarrow>
          (if any_less_equal phi_array 0
           then Inl (ValueError ''Natural parameters should be positive'')
           else
             (case phi of
                [] \<Rightarrow> Inl IndexError
              | phi0 # _ \<Rightarrow>
                  (let sum_gammaln = np_sum False (ufunc gammaln phi0);
                       gammaln_sum = ufunc gammaln (np_sum False phi0);
                       psi_sum = ufunc psi (np_sum True phi0)
                   in (case np_subtract (ufunc psi phi0) psi_sum of
                         Inl e \<Rightarrow> Inl e
                       | Inr u0 \<Rightarrow>
                           (case np_subtract gammaln_sum sum_gammaln of
                              Inl e \<Rightarrow> Inl e
                            | Inr g \<Rightarrow> Inr ([u0], g)))))))"

definition compute_fixed_moments_and_f ::
  "(real \<Rightarrow> real) \<Rightarrow> ndarray \<Rightarrow> 'm \<Rightarrow> error + (ndarray list \<times> ndarray)" where
  "compute_fixed_moments_and_f np_log p mask' =
     (if ndim p < 1 then Inl (ValueError ''Probabilities must be given as a vector'')
      else if any_less p 0 \<or> any_greater p 1
        then Inl (ValueError ''Probabilities must be in range [0,1]'')
      else if \<not> np_allclose (np_sum False p) 1
        then Inl (ValueError ''Probabilities must sum to one'')
      else
        (case np_divide p (np_sum True p) of
           Inl e \<Rightarrow> Inl e
         | Inr p' \<Rightarrow>
             (let logp = ufunc np_log p';
                  u = [logp];
                  f = ufunc uminus (np_sum False logp)
              in Inr (u, f))))"

definition compute_gradient ::
  "(nat \<Rightarrow> real \<Rightarrow> real) \<Rightarrow> ndarray list \<Rightarrow> 'u \<Rightarrow> ndarray list \<Rightarrow> error + ndarray list" where
  "compute_gradient polygamma g u phi =
     (case phi of
        [] \<Rightarrow> Inl IndexError
      | phi0 # _ \<Rightarrow>
          (let sum_phi = np_sum True phi0
           in (case g of
                 [] \<Rightarrow> Inl IndexError
               | g0 # _ \<Rightarrow>
                   (case np_subtract (ufunc (polygamma 1) phi0) (ufunc (polygamma 1) sum_phi) of
                      Inl e \<Rightarrow> Inl e
                    | Inr diff \<Rightarrow>
                        (case np_multiply g0 diff of
                           Inl e \<Rightarrow> Inl e
                         | Inr d0 \<Rightarrow> Inr [d0])))))"

section \<open>The same operations on arrays held in a store\<close>

text \<open>
  numpy arrays are mutable objects, and a function that is given an array works on the
  caller's own object: \<^verbatim>\<open>np.asanyarray(p)\<close> returns \<open>p\<close> itself when \<open>p\<close> is an
  array. The functions above treat arrays as values. The three functions below follow the
  same source lines with the arrays in a store (the list of the arrays that exist, an
  address being a position in it): an argument is an address, and every array that the
  source binds to a name is allocated at a fresh address. The source has no assignment
  into an array (no \<^verbatim>\<open>a[...] = ...\<close>, no \<^verbatim>\<open>/=\<close>, no \<^verbatim>\<open>out=\<close>): the statement
  \<^verbatim>\<open>p = p / np.sum(p, axis=-1, keepdims=True)\<close> binds the local name \<open>p\<close> to the new
  array that the division returns. Arrays that no name keeps (the results of the
  comparisons and of the sums inside the tests) are not recorded.
\<close>

type_synonym addr = nat

type_synonym store = "ndarray list"

definition alloc :: "ndarray \<Rightarrow> store \<Rightarrow> addr \<times> store" where
  "alloc a st = (length st, st @ [a])"

definition DirichletMoments_compute_fixed_moments_st ::
  "(real \<Rightarrow> real) \<Rightarrow> addr \<Rightarrow> store \<Rightarrow> (error + addr list) \<times> store" where
  "DirichletMoments_compute_fixed_moments_st np_log p0 st0 =
     (let p = p0 in
      if ndim (st0 ! p) < 1
        then (Inl (ValueError ''Probabilities must be given as a vector''), st0)
      else if any_less (st0 ! p) 0 \<or> any_greater (st0 ! p) 1
        then (Inl (ValueError ''Probabilities must be in range [0,1]''), st0)
      else if \<not> np_allclose (np_sum False (st0 ! p)) 1
        then (Inl (ValueError ''Probabilities must sum to one''), st0)
      else
        (case np_divide (st0 ! p) (np_sum True (st0 ! p)) of
           Inl e \<Rightarrow> (Inl e, st0)
         | Inr v \<Rightarrow>
             (let (p, st1) = alloc v st0;
                  (logp, st2) = alloc (ufunc np_log (st1 ! p)) st1;
                  u = [logp]
              in (Inr u, st2))))"

definition compute_fixed_moments_and_f_st ::
  "(real \<Rightarrow> real) \<Rightarrow> addr \<Rightarrow> 'm \<Rightarrow> store \<Rightarrow> (error + (addr list \<times> addr)) \<times> store" where
  "compute_fixed_moments_and_f_st np_log p0 mask' st0 =
     (let p = p0 in
      if ndim (st0 ! p) < 1
        then (Inl (ValueError ''Probabilities must be given as a vector''), st0)
      else if any_less (st0 ! p) 0 \<or> any_greater (st0 ! p) 1
        then (Inl (ValueError ''Probabilities must be in range [0,1]''), st0)
      else if \<not> np_allclose (np_sum False (st0 ! p)) 1
        then (Inl (ValueError ''Probabilities must sum to one''), st0)
      else
        (case np_divide (st0 ! p) (np_sum True (st0 ! p)) of
           Inl e \<Rightarrow> (Inl e, st0)
         | Inr v \<Rightarrow>
             (let (p, st1) = alloc v st0;
                  (logp, st2) = alloc (ufunc np_log (st1 ! p)) st1;
                  u = [logp];
                  (f, st3) = alloc (ufunc uminus (np_sum False (st2 ! logp))) st2
              in (Inr (u, f), st3))))"

definition compute_moments_and_cgf_st ::
  "(real \<Rightarrow> real) \<Rightarrow> (real \<Rightarrow> real) \<Rightarrow> addr list \<Rightarrow> 'm \<Rightarrow> store
     \<Rightarrow> (error + (addr list \<times> addr)) \<times> store" where
  "compute_moments_and_cgf_st psi gammaln phi mask' st0 =
     (case asanyarray_list (map ((!) st0) phi) of
        Inl e \<Rightarrow> (Inl e, st0)
      | Inr phi_array \<Rightarrow>
          (if any_less_equal phi_array 0
           then (Inl (ValueError ''Natural parameters should be positive''), st0)
           else
             (case phi of
                [] \<Rightarrow> (Inl IndexError, st0)
              | phi0 # _ \<Rightarrow>
                  (let (sum_gammaln, st1) = alloc (np_sum False (ufunc gammaln (st0 ! phi0))) st0;
                       (gammaln_sum, st2) = alloc (ufunc gammaln (np_sum False (st1 ! phi0))) st1;
                       (psi_sum, st3) = alloc (ufunc psi (np_sum True (st2 ! phi0))) st2
                   in (case np_subtract (ufunc psi (st3 ! phi0)) (st3 ! psi_sum) of
                         Inl e \<Rightarrow> (Inl e, st3)
                       | Inr v \<Rightarrow>
                           (let (u0, st4) = alloc v st3;
                                u = [u0]
                            in (case np_subtract (st4 ! gammaln_sum) (st4 ! sum_gammaln) of
                                  Inl e \<Rightarrow> (Inl e, st4)
                                | Inr w \<Rightarrow>
                                    (let (g, st5) = alloc w st4
                                     in (Inr (u, g), st5)))))))))"

section \<open>The re-normalized probabilities of the specification\<close>

text \<open>
  Following the spec's words, not the code: \<open>p\<close> divided by its trailing-axis sum, entry
  by entry (the entry at row-major position \<open>i\<close> lies in the vector number
  \<open>i div axis_len p\<close>). The statements about the two functions that re-normalize compare
  what the code computes with this array.
\<close>

definition renormalized :: "ndarray \<Rightarrow> ndarray" where
  "renormalized p =
     \<lparr>shape = shape p,
      elems = map (\<lambda>i. elems p ! i / sum_list (row p (i div axis_len p)))
                  [0..<length (elems p)]\<rparr>"

section \<open>Facts about the array operations\<close>

lemma broadcast_shapes_same: "broadcast_shapes ts ts = Some ts"
  by (induction ts) simp_all

lemma src_index_same: "i < prod_list ts \<Longrightarrow> src_index ts ts i = i"
proof (induction ts arbitrary: i)
  case Nil
  then show ?case by simp
next
  case (Cons t ts)
  have pos: "0 < t" using Cons.prems by (cases "t = 0") simp_all
  have "i < prod_list ts * t" using Cons.prems by (simp add: mult.commute)
  then have "i div t < prod_list ts" using pos by (simp add: less_mult_imp_div_less)
  then have "src_index ts ts (i div t) = i div t" by (rule Cons.IH)
  then show ?case by (cases "t = 1") (simp_all add: mult.commute)
qed

lemma prod_list_rev_nat: "prod_list (rev xs) = prod_list (xs::nat list)"
  by (induction xs) (simp_all add: mult.commute)

lemma shape_size: "prod_list (shape a) = nrows a * axis_len a"
  by (cases "shape a" rule: rev_cases) (simp_all add: nrows_def axis_len_def)

lemma src_index_keepdims:
  assumes "i < prod_list ts * t"
  shows "src_index (1 # ts) (t # ts) i = i div t"
proof -
  have pos: "0 < t" using assms by (cases "t = 0") simp_all
  have "i div t < prod_list ts" using assms pos by (simp add: less_mult_imp_div_less)
  then show ?thesis by (simp add: src_index_same)
qed


lemma np_binop_same_shape:
  assumes "shape b = shape a"
  shows "np_binop f a b =
    Inr \<lparr>shape = shape a,
         elems = map (\<lambda>i. f (elems a ! i) (elems b ! i)) [0..<prod_list (shape a)]\<rparr>"
  using assms
  by (simp add: np_binop_def broadcast_shapes_same prod_list_rev_nat src_index_same)

lemma np_binop_keepdims:
  assumes "shape s = (if shape a = [] then [] else butlast (shape a) @ [1])"
  shows "np_binop f a s =
    Inr \<lparr>shape = shape a,
         elems = map (\<lambda>i. f (elems a ! i) (elems s ! (i div axis_len a)))
                     [0..<prod_list (shape a)]\<rparr>"
proof (cases "shape a" rule: rev_cases)
  case Nil
  then show ?thesis using assms by (simp add: np_binop_def axis_len_def)
next
  case (snoc l k)
  have "\<And>i. i < prod_list l * k \<Longrightarrow> src_index (k # rev l) (k # rev l) i = i"
    using src_index_same [of _ "k # rev l"] by (simp add: prod_list_rev_nat mult.commute)
  moreover have "\<And>i. i < prod_list l * k \<Longrightarrow> src_index (1 # rev l) (k # rev l) i = i div k"
    using src_index_keepdims [of _ "rev l" k] by (simp add: prod_list_rev_nat)
  ultimately show ?thesis using snoc assms
    by (simp add: np_binop_def broadcast_shapes_same axis_len_def prod_list_rev_nat mult.commute)
qed

lemma np_sum_shape:
  "shape (np_sum keepdims a) =
     (if shape a = [] then [] else butlast (shape a) @ (if keepdims then [1] else []))"
  by (simp add: np_sum_def)

lemma np_sum_elems:
  assumes "wf_array a"
  shows "elems (np_sum keepdims a) = map (\<lambda>b. sum_list (row a b)) [0..<nrows a]"
proof (cases "shape a = []")
  case True
  then have "length (elems a) = 1" using assms by (simp add: wf_array_def)
  then obtain x where "elems a = [x]" by (cases "elems a") auto
  then show ?thesis using True by (simp add: np_sum_def nrows_def row_def axis_len_def)
next
  case False
  then show ?thesis by (simp add: np_sum_def)
qed

lemma row_ufunc: "row (ufunc f a) b = map f (row a b)"
  by (simp add: row_def ufunc_def axis_len_def take_map drop_map)

lemma shape_ufunc: "shape (ufunc f a) = shape a"
  by (simp add: ufunc_def)

lemma elems_ufunc: "elems (ufunc f a) = map f (elems a)"
  by (simp add: ufunc_def)

lemma wf_ufunc: "wf_array (ufunc f a) = wf_array a"
  by (simp add: wf_array_def ufunc_def)

lemma nrows_ufunc: "nrows (ufunc f a) = nrows a"
  by (simp add: nrows_def ufunc_def)

lemma axis_len_ufunc: "axis_len (ufunc f a) = axis_len a"
  by (simp add: axis_len_def ufunc_def)

lemma wf_length: "wf_array a \<Longrightarrow> length (elems a) = nrows a * axis_len a"
  by (simp add: wf_array_def shape_size)

lemma row_index: "i < nrows a * axis_len a \<Longrightarrow> i div axis_len a < nrows a"
  by (cases "axis_len a = 0") (simp_all add: less_mult_imp_div_less)

lemma binop_rowsum:
  assumes "wf_array a"
  shows "np_binop f (ufunc h a) (ufunc k (np_sum True a)) =
    Inr \<lparr>shape = shape a,
         elems = map (\<lambda>i. f (h (elems a ! i)) (k (sum_list (row a (i div axis_len a)))))
                     [0..<length (elems a)]\<rparr>"
proof -
  have len: "length (elems a) = nrows a * axis_len a" using assms by (rule wf_length)
  have sh: "shape (ufunc k (np_sum True a)) =
      (if shape (ufunc h a) = [] then [] else butlast (shape (ufunc h a)) @ [1])"
    by (simp add: shape_ufunc np_sum_shape)
  have "prod_list (shape a) = length (elems a)" using assms by (simp add: wf_array_def)
  moreover have "\<And>i. i < length (elems a) \<Longrightarrow>
      elems (ufunc k (np_sum True a)) ! (i div axis_len a) = k (sum_list (row a (i div axis_len a)))"
    using row_index [of _ a] by (simp add: elems_ufunc np_sum_elems [OF assms] len)
  ultimately show ?thesis
    by (simp add: np_binop_keepdims [OF sh] shape_ufunc axis_len_ufunc elems_ufunc)
qed

lemma binop_reduced:
  assumes "wf_array a"
  shows "np_binop f (ufunc h (np_sum False a)) (np_sum False (ufunc k a)) =
    Inr \<lparr>shape = butlast (shape a),
         elems = map (\<lambda>b. f (h (sum_list (row a b))) (sum_list (map k (row a b))))
                     [0..<nrows a]\<rparr>"
proof -
  have sh: "shape (np_sum False (ufunc k a)) = shape (ufunc h (np_sum False a))"
    by (simp add: shape_ufunc np_sum_shape)
  have "wf_array (ufunc k a)" using assms by (simp add: wf_ufunc)
  then have e2: "elems (np_sum False (ufunc k a)) = map (\<lambda>b. sum_list (map k (row a b))) [0..<nrows a]"
    by (simp add: np_sum_elems nrows_ufunc row_ufunc)
  have e1: "elems (ufunc h (np_sum False a)) = map (\<lambda>b. h (sum_list (row a b))) [0..<nrows a]"
    by (simp add: elems_ufunc np_sum_elems [OF assms])
  have "prod_list (shape (ufunc h (np_sum False a))) = nrows a"
    by (simp add: shape_ufunc np_sum_shape nrows_def)
  then show ?thesis
    by (simp add: np_binop_same_shape [OF sh] e1 e2) (simp add: shape_ufunc np_sum_shape)
qed

lemma ufunc_id: "ufunc (\<lambda>x. x) a = a"
  by (simp add: ufunc_def)

lemma allclose_rowsums:
  assumes "wf_array p"
  shows "np_allclose (np_sum False p) 1 \<longleftrightarrow>
    (\<forall>b<nrows p. \<bar>sum_list (row p b) - 1\<bar> \<le> atol + rtol)"
  by (auto simp add: np_allclose_def np_sum_elems [OF assms])

lemma divide_rowsum:
  assumes "wf_array p"
  shows "np_divide p (np_sum True p) = Inr (renormalized p)"
  using binop_rowsum [OF assms, of "(/)" "\<lambda>x. x" "\<lambda>x. x"]
  by (simp add: ufunc_id np_divide_def renormalized_def)

lemma shape_renormalized: "shape (renormalized p) = shape p"
  by (simp add: renormalized_def)

lemma nrows_renormalized: "nrows (renormalized p) = nrows p"
  by (simp add: renormalized_def nrows_def)

lemma wf_renormalized: "wf_array p \<Longrightarrow> wf_array (renormalized p)"
  by (simp add: wf_array_def renormalized_def)

lemma prior_moments_eval:
  assumes "wf_array alpha"
  shows "DirichletPriorMoments_compute_fixed_moments gammaln alpha =
     (if ndim alpha < 1 then Inl (ValueError ''The prior sample sizes must be a vector'')
      else if \<exists>x\<in>set (elems alpha). x < 0
        then Inl (ValueError ''The prior sample sizes must be non-negative'')
      else Inr [alpha,
             \<lparr>shape = butlast (shape alpha),
              elems = map (\<lambda>b. gammaln (sum_list (row alpha b)) - sum_list (map gammaln (row alpha b)))
                          [0..<nrows alpha]\<rparr>])"
  by (simp add: DirichletPriorMoments_compute_fixed_moments_def any_less_def np_subtract_def
      binop_reduced [OF assms])

lemma moments_eval:
  assumes "wf_array p"
  shows "DirichletMoments_compute_fixed_moments np_log p =
     (if ndim p < 1 then Inl (ValueError ''Probabilities must be given as a vector'')
      else if \<exists>x\<in>set (elems p). x < 0 \<or> 1 < x
        then Inl (ValueError ''Probabilities must be in range [0,1]'')
      else if \<not> (\<forall>b<nrows p. \<bar>sum_list (row p b) - 1\<bar> \<le> atol + rtol)
        then Inl (ValueError ''Probabilities must sum to one'')
      else Inr [ufunc np_log (renormalized p)])"
  by (auto simp add: DirichletMoments_compute_fixed_moments_def any_less_def any_greater_def
      allclose_rowsums [OF assms] divide_rowsum [OF assms])

lemma fixed_moments_and_f_eval:
  assumes "wf_array p"
  shows "compute_fixed_moments_and_f np_log p mask' =
     (if ndim p < 1 then Inl (ValueError ''Probabilities must be given as a vector'')
      else if \<exists>x\<in>set (elems p). x < 0 \<or> 1 < x
        then Inl (ValueError ''Probabilities must be in range [0,1]'')
      else if \<not> (\<forall>b<nrows p. \<bar>sum_list (row p b) - 1\<bar> \<le> atol + rtol)
        then Inl (ValueError ''Probabilities must sum to one'')
      else Inr ([ufunc np_log (renormalized p)],
             \<lparr>shape = butlast (shape p),
              elems = map (\<lambda>b. - sum_list (map np_log (row (renormalized p) b))) [0..<nrows p]\<rparr>))"
proof -
  have wfl: "wf_array (ufunc np_log (renormalized p))"
    using assms by (simp add: wf_ufunc wf_renormalized)
  have "ufunc uminus (np_sum False (ufunc np_log (renormalized p))) =
      \<lparr>shape = butlast (shape p),
       elems = map (\<lambda>b. - sum_list (map np_log (row (renormalized p) b))) [0..<nrows p]\<rparr>"
    unfolding ufunc_def [of uminus]
    by (simp add: np_sum_shape np_sum_elems [OF wfl] row_ufunc nrows_ufunc shape_ufunc
        shape_renormalized nrows_renormalized)
  then show ?thesis
    by (auto simp add: compute_fixed_moments_and_f_def any_less_def any_greater_def
      allclose_rowsums [OF assms] divide_rowsum [OF assms])
qed

lemma asanyarray_single: "asanyarray_list [a] = Inr \<lparr>shape = [1] @ shape a, elems = elems a\<rparr>"
  by (simp add: asanyarray_list_def)

lemma moments_and_cgf_eval:
  assumes "wf_array phi0"
  shows "compute_moments_and_cgf psi gammaln [phi0] mask' =
     (if \<exists>x\<in>set (elems phi0). x \<le> 0
      then Inl (ValueError ''Natural parameters should be positive'')
      else Inr ([\<lparr>shape = shape phi0,
                  elems = map (\<lambda>i. psi (elems phi0 ! i) - psi (sum_list (row phi0 (i div axis_len phi0))))
                              [0..<length (elems phi0)]\<rparr>],
                \<lparr>shape = butlast (shape phi0),
                 elems = map (\<lambda>b. gammaln (sum_list (row phi0 b)) - sum_list (map gammaln (row phi0 b)))
                             [0..<nrows phi0]\<rparr>))"
  by (simp add: compute_moments_and_cgf_def asanyarray_single any_less_equal_def np_subtract_def
      binop_reduced [OF assms] binop_rowsum [OF assms])

lemma gradient_diff:
  assumes "wf_array phi0"
  shows "np_subtract (ufunc (polygamma 1) phi0) (ufunc (polygamma 1) (np_sum True phi0)) =
     Inr \<lparr>shape = shape phi0,
          elems = map (\<lambda>i. polygamma 1 (elems phi0 ! i)
                             - polygamma 1 (sum_list (row phi0 (i div axis_len phi0))))
                      [0..<length (elems phi0)]\<rparr>"
  by (simp add: np_subtract_def binop_rowsum [OF assms])

section \<open>The store: frame and agreement with the value-level functions\<close>

lemma moments_st_frame:
  "take (length st) (snd (DirichletMoments_compute_fixed_moments_st np_log p st)) = st"
  by (simp add: DirichletMoments_compute_fixed_moments_st_def alloc_def split: sum.splits)

lemma fixed_moments_and_f_st_frame:
  "take (length st) (snd (compute_fixed_moments_and_f_st np_log p mask' st)) = st"
  by (simp add: compute_fixed_moments_and_f_st_def alloc_def split: sum.splits)

lemma moments_and_cgf_st_frame:
  "take (length st) (snd (compute_moments_and_cgf_st psi gammaln phi mask' st)) = st"
  by (simp add: compute_moments_and_cgf_st_def alloc_def split: sum.splits list.splits)

lemma moments_st_agrees:
  "p < length st \<Longrightarrow>
   (case DirichletMoments_compute_fixed_moments_st np_log p st of
      (Inl e, st') \<Rightarrow> DirichletMoments_compute_fixed_moments np_log (st ! p) = Inl e \<and> st' = st
    | (Inr u, st') \<Rightarrow> DirichletMoments_compute_fixed_moments np_log (st ! p) = Inr (map ((!) st') u))"
  by (simp add: DirichletMoments_compute_fixed_moments_st_def DirichletMoments_compute_fixed_moments_def
      alloc_def nth_append split: sum.splits)

lemma fixed_moments_and_f_st_agrees:
  "p < length st \<Longrightarrow>
   (case compute_fixed_moments_and_f_st np_log p mask' st of
      (Inl e, st') \<Rightarrow> compute_fixed_moments_and_f np_log (st ! p) mask' = Inl e \<and> st' = st
    | (Inr (u, f), st') \<Rightarrow>
        compute_fixed_moments_and_f np_log (st ! p) mask' = Inr (map ((!) st') u, st' ! f))"
  by (simp add: compute_fixed_moments_and_f_st_def compute_fixed_moments_and_f_def
      alloc_def nth_append Let_def split: sum.splits)

lemma moments_and_cgf_st_agrees:
  "(case compute_moments_and_cgf_st psi gammaln phi mask' st of
      (Inl e, st') \<Rightarrow> compute_moments_and_cgf psi gammaln (map ((!) st) phi) mask' = Inl e
    | (Inr (u, g), st') \<Rightarrow>
        compute_moments_and_cgf psi gammaln (map ((!) st) phi) mask' = Inr (map ((!) st') u, st' ! g))"
  if "\<forall>r\<in>set phi. r < length st"
proof (cases phi)
  case Nil
  then show ?thesis
    by (simp add: compute_moments_and_cgf_st_def compute_moments_and_cgf_def split: sum.splits)
next
  case (Cons r rs)
  then have "r < length st" using that by simp
  then show ?thesis using Cons
    by (simp add: compute_moments_and_cgf_st_def compute_moments_and_cgf_def
        alloc_def nth_append Let_def split: sum.splits)
qed

section \<open>Facts about the operations of the module\<close>

lemma subtract_keepdims_ok:
  "\<exists>r. np_subtract (ufunc h a) (ufunc k (np_sum True a)) = Inr r"
  by (simp add: np_subtract_def np_binop_keepdims shape_ufunc np_sum_shape)

lemma subtract_reduced_ok:
  "\<exists>r. np_subtract (ufunc h (np_sum False a)) (np_sum False (ufunc k a)) = Inr r"
  by (simp add: np_subtract_def np_binop_same_shape shape_ufunc np_sum_shape)

lemma moments_and_cgf_fails:
  assumes "\<exists>x\<in>set (elems phi0). x \<le> 0"
  shows "compute_moments_and_cgf psi gammaln [phi0] mask' =
    Inl (ValueError ''Natural parameters should be positive'')"
  using assms by (simp add: compute_moments_and_cgf_def asanyarray_single any_less_equal_def)

lemma moments_and_cgf_returns:
  assumes "\<not> (\<exists>x\<in>set (elems phi0). x \<le> 0)"
  shows "\<exists>r. compute_moments_and_cgf psi gammaln [phi0] mask' = Inr r"
proof -
  obtain u0 where u0: "np_subtract (ufunc psi phi0) (ufunc psi (np_sum True phi0)) = Inr u0"
    using subtract_keepdims_ok by blast
  obtain g where g:
    "np_subtract (ufunc gammaln (np_sum False phi0)) (np_sum False (ufunc gammaln phi0)) = Inr g"
    using subtract_reduced_ok by blast
  show ?thesis using assms
    by (simp add: compute_moments_and_cgf_def asanyarray_single any_less_equal_def u0 g)
qed

lemma moments_and_cgf_st_fails:
  assumes "\<exists>x\<in>set (elems (st ! r)). x \<le> 0"
  shows "compute_moments_and_cgf_st psi gammaln [r] mask' st =
    (Inl (ValueError ''Natural parameters should be positive''), st)"
  using assms by (simp add: compute_moments_and_cgf_st_def asanyarray_single any_less_equal_def)

lemma prior_moments_returns:
  assumes "1 \<le> ndim alpha" and "\<forall>x\<in>set (elems alpha). 0 \<le> x"
  shows "\<exists>z. DirichletPriorMoments_compute_fixed_moments gammaln alpha = Inr [alpha, z]"
proof -
  obtain z where
    "np_subtract (ufunc gammaln (np_sum False alpha)) (np_sum False (ufunc gammaln alpha)) = Inr z"
    using subtract_reduced_ok by blast
  moreover have "\<not> any_less alpha 0" using assms(2) by (force simp add: any_less_def)
  ultimately show ?thesis using assms(1)
    by (simp add: DirichletPriorMoments_compute_fixed_moments_def)
qed

lemma gradient_eval:
  assumes "wf_array phi0"
  shows "compute_gradient polygamma (g0 # gs) u (phi0 # phis) =
     (case np_multiply g0
             \<lparr>shape = shape phi0,
              elems = map (\<lambda>i. polygamma 1 (elems phi0 ! i)
                                 - polygamma 1 (sum_list (row phi0 (i div axis_len phi0))))
                          [0..<length (elems phi0)]\<rparr> of
        Inl e \<Rightarrow> Inl e
      | Inr d0 \<Rightarrow> Inr [d0])"
  by (simp add: compute_gradient_def gradient_diff [OF assms] del: One_nat_def)

lemma gradient_same_shape:
  assumes "wf_array phi0" and "shape g0 = shape phi0"
  shows "compute_gradient polygamma (g0 # gs) u (phi0 # phis) =
     Inr [\<lparr>shape = shape phi0,
           elems = map (\<lambda>i. elems g0 ! i *
                              (polygamma 1 (elems phi0 ! i)
                                 - polygamma 1 (sum_list (row phi0 (i div axis_len phi0)))))
                       [0..<length (elems phi0)]\<rparr>]"
proof -
  have len: "prod_list (shape phi0) = length (elems phi0)"
    using assms(1) by (simp add: wf_array_def)
  show ?thesis
    by (simp add: gradient_eval [OF assms(1)] np_multiply_def np_binop_same_shape assms(2) len)
qed




section \<open>Properties\<close>

text \<open>
  In the closed instances below the library functions are replaced by simple functions
  (\<open>\<lambda>x. 2 * x\<close> for psi, \<open>\<lambda>x. x * x\<close> for gammaln, \<open>\<lambda>n x. real n * x\<close> for
  polygamma, the real logarithm for the logarithm), so that every entry can be computed.
\<close>

text \<open>
  C1. For phi = [phi0] with every entry of phi0 strictly positive, compute_moments_and_cgf
  returns (u, g): u = [u0], where u0 has the shape of phi0 and its entry at position \<open>i\<close>
  is psi of the entry of phi0 there minus psi of the sum of the trailing-axis vector that
  the entry lies in (the sum reduced along the trailing axis and broadcast back); g has the
  leading axes of phi0 and holds, for each trailing-axis vector, gammaln of its sum minus
  the sum of gammaln of its entries.
\<close>

theorem compute_moments_and_cgf_value:
  assumes "wf_array phi0" and "\<forall>x\<in>set (elems phi0). 0 < x"
  shows "compute_moments_and_cgf psi gammaln [phi0] mask' =
     Inr ([\<lparr>shape = shape phi0,
            elems = map (\<lambda>i. psi (elems phi0 ! i) - psi (sum_list (row phi0 (i div axis_len phi0))))
                        [0..<length (elems phi0)]\<rparr>],
          \<lparr>shape = butlast (shape phi0),
           elems = map (\<lambda>b. gammaln (sum_list (row phi0 b)) - sum_list (map gammaln (row phi0 b)))
                       [0..<nrows phi0]\<rparr>)"
proof -
  have "\<not> (\<exists>x\<in>set (elems phi0). x \<le> 0)" using assms(2) by force
  then show ?thesis by (simp add: moments_and_cgf_eval [OF assms(1)])
qed

theorem compute_moments_and_cgf_value_witness:
  "compute_moments_and_cgf (\<lambda>x. 2 * x) (\<lambda>x. x * x) [\<lparr>shape = [2, 2], elems = [1, 2, 3, 4]\<rparr>] True =
     Inr ([\<lparr>shape = [2, 2], elems = [- 4, - 2, - 8, - 6]\<rparr>], \<lparr>shape = [2], elems = [4, 24]\<rparr>)"
  using compute_moments_and_cgf_value
    [of "\<lparr>shape = [2, 2], elems = [1, 2, 3, 4]\<rparr>" "\<lambda>x. 2 * x" "\<lambda>x. x * x" True]
  by (simp add: wf_array_def row_def axis_len_def nrows_def upt_rec)

text \<open>
  C2. For phi = [phi0], compute_moments_and_cgf fails with ValueError exactly when some
  entry of phi0 is less than or equal to zero; it fails for phi0 = [0, 2, 3]; when it fails
  it returns no result, and on arrays held in a store it leaves the store as it was.
\<close>

theorem compute_moments_and_cgf_fails_iff:
  "((\<exists>msg. compute_moments_and_cgf psi gammaln [phi0] mask' = Inl (ValueError msg))
      \<longleftrightarrow> (\<exists>x\<in>set (elems phi0). x \<le> 0)) \<and>
   ((\<exists>x\<in>set (elems phi0). x \<le> 0) \<longrightarrow>
      (\<nexists>r. compute_moments_and_cgf psi gammaln [phi0] mask' = Inr r)) \<and>
   (\<exists>msg. compute_moments_and_cgf psi gammaln [\<lparr>shape = [3], elems = [0, 2, 3]\<rparr>] mask'
      = Inl (ValueError msg)) \<and>
   ((\<exists>x\<in>set (elems (st ! phi0_addr)). x \<le> 0) \<longrightarrow>
      compute_moments_and_cgf_st psi gammaln [phi0_addr] mask' st =
        (Inl (ValueError ''Natural parameters should be positive''), st))"
proof (intro conjI impI)
  show "(\<exists>msg. compute_moments_and_cgf psi gammaln [phi0] mask' = Inl (ValueError msg))
      \<longleftrightarrow> (\<exists>x\<in>set (elems phi0). x \<le> 0)"
  proof (cases "\<exists>x\<in>set (elems phi0). x \<le> 0")
    case True
    then show ?thesis by (simp add: moments_and_cgf_fails)
  next
    case False
    from moments_and_cgf_returns [OF False, of psi gammaln mask']
    obtain r where "compute_moments_and_cgf psi gammaln [phi0] mask' = Inr r" ..
    then show ?thesis using False by simp
  qed
next
  assume "\<exists>x\<in>set (elems phi0). x \<le> 0"
  then show "\<nexists>r. compute_moments_and_cgf psi gammaln [phi0] mask' = Inr r"
    by (simp add: moments_and_cgf_fails)
next
  show "\<exists>msg. compute_moments_and_cgf psi gammaln [\<lparr>shape = [3], elems = [0, 2, 3]\<rparr>] mask'
      = Inl (ValueError msg)"
    by (simp add: moments_and_cgf_fails)
next
  assume "\<exists>x\<in>set (elems (st ! phi0_addr)). x \<le> 0"
  then show "compute_moments_and_cgf_st psi gammaln [phi0_addr] mask' st =
        (Inl (ValueError ''Natural parameters should be positive''), st)"
    by (rule moments_and_cgf_st_fails)
qed

theorem compute_moments_and_cgf_fails_iff_witness:
  "(\<exists>msg. compute_moments_and_cgf (\<lambda>x. 2 * x) (\<lambda>x. x * x) [\<lparr>shape = [3], elems = [0, 2, 3]\<rparr>] True
      = Inl (ValueError msg)) \<and>
   (\<nexists>r. compute_moments_and_cgf (\<lambda>x. 2 * x) (\<lambda>x. x * x) [\<lparr>shape = [3], elems = [0, 2, 3]\<rparr>] True
      = Inr r) \<and>
   compute_moments_and_cgf_st (\<lambda>x. 2 * x) (\<lambda>x. x * x) [0] True [\<lparr>shape = [3], elems = [0, 2, 3]\<rparr>] =
     (Inl (ValueError ''Natural parameters should be positive''), [\<lparr>shape = [3], elems = [0, 2, 3]\<rparr>])"
  using compute_moments_and_cgf_fails_iff
    [of "\<lambda>x. 2 * x" "\<lambda>x. x * x" "\<lparr>shape = [3], elems = [0, 2, 3]\<rparr>" True
        "[\<lparr>shape = [3], elems = [0, 2, 3]\<rparr>]" 0]
  by simp

text \<open>
  C3. For alpha of dimensionality at least 1 with no negative entry,
  DirichletPriorMoments.compute_fixed_moments returns moments from which
  compute_phi_from_parents gives back [alpha]; and compute_phi_from_parents returns the first
  element of its argument, unchanged, as a one-element list.
\<close>

theorem round_trip_phi_from_fixed_moments:
  assumes "1 \<le> ndim alpha" and "\<forall>x\<in>set (elems alpha). 0 \<le> x"
  shows "(\<exists>u_alpha. DirichletPriorMoments_compute_fixed_moments gammaln alpha = Inr u_alpha \<and>
            compute_phi_from_parents u_alpha mask' = Inr [alpha]) \<and>
         compute_phi_from_parents (u0 # us) mask' = Inr [u0]"
proof -
  from prior_moments_returns [OF assms, of gammaln]
  obtain z where "DirichletPriorMoments_compute_fixed_moments gammaln alpha = Inr [alpha, z]" ..
  then show ?thesis by (simp add: compute_phi_from_parents_def)
qed

theorem round_trip_phi_from_fixed_moments_witness:
  "(\<exists>u_alpha. DirichletPriorMoments_compute_fixed_moments (\<lambda>x. x * x) \<lparr>shape = [3], elems = [1, 1, 1]\<rparr>
        = Inr u_alpha \<and>
      compute_phi_from_parents u_alpha True = Inr [\<lparr>shape = [3], elems = [1, 1, 1]\<rparr>]) \<and>
   compute_phi_from_parents [\<lparr>shape = [3], elems = [1, 1, 1]\<rparr>, \<lparr>shape = [], elems = [6]\<rparr>] True
     = Inr [\<lparr>shape = [3], elems = [1, 1, 1]\<rparr>]"
  using round_trip_phi_from_fixed_moments
    [of "\<lparr>shape = [3], elems = [1, 1, 1]\<rparr>" "\<lambda>x. x * x" True
        "\<lparr>shape = [3], elems = [1, 1, 1]\<rparr>" "[\<lparr>shape = [], elems = [6]\<rparr>]"]
  by (simp add: ndim_def)

text \<open>
  C4. For p of dimensionality at least 1 with every entry in (0, 1] and every trailing-axis
  sum within the tolerance of 1, compute_fixed_moments_and_f returns (u, f) where u holds the
  logarithm of p divided by its trailing-axis sum and f holds, for each trailing-axis vector,
  minus the sum of these logarithms.
\<close>

theorem compute_fixed_moments_and_f_value:
  assumes "wf_array p" and "1 \<le> ndim p"
    and "\<forall>x\<in>set (elems p). 0 < x \<and> x \<le> 1"
    and "\<forall>b<nrows p. \<bar>sum_list (row p b) - 1\<bar> \<le> atol + rtol * \<bar>1\<bar>"
  shows "compute_fixed_moments_and_f np_log p mask' =
     Inr ([ufunc np_log (renormalized p)],
          \<lparr>shape = butlast (shape p),
           elems = map (\<lambda>b. - sum_list (map np_log (row (renormalized p) b))) [0..<nrows p]\<rparr>)"
proof -
  have "\<not> (\<exists>x\<in>set (elems p). x < 0 \<or> 1 < x)" using assms(3) by force
  then show ?thesis using assms(2,4) by (simp add: fixed_moments_and_f_eval [OF assms(1)])
qed

theorem compute_fixed_moments_and_f_value_witness:
  "compute_fixed_moments_and_f ln \<lparr>shape = [2, 2], elems = [1/2, 1/2, 1/4, 3/4]\<rparr> True =
     Inr ([\<lparr>shape = [2, 2], elems = [ln (1/2), ln (1/2), ln (1/4), ln (3/4)]\<rparr>],
          \<lparr>shape = [2], elems = [- (ln (1/2) + ln (1/2)), - (ln (1/4) + ln (3/4))]\<rparr>)"
proof -
  let ?p = "\<lparr>shape = [2, 2], elems = [1/2, 1/2, 1/4, 3/4]\<rparr>"
  have wf: "wf_array ?p" by (simp add: wf_array_def)
  have nd: "1 \<le> ndim ?p" by (simp add: ndim_def)
  have rng: "\<forall>x\<in>set (elems ?p). 0 < x \<and> x \<le> 1" by simp
  have sums: "\<forall>b<nrows ?p. \<bar>sum_list (row ?p b) - 1\<bar> \<le> atol + rtol * \<bar>1\<bar>"
    by (simp add: nrows_def row_def axis_len_def atol_def rtol_def less_Suc_eq numeral_2_eq_2)
  show ?thesis
    using compute_fixed_moments_and_f_value [OF wf nd rng sums, of ln True]
    by (simp add: row_def axis_len_def nrows_def upt_rec renormalized_def ufunc_def)
qed

text \<open>
  C5. DirichletMoments.compute_fixed_moments fails with ValueError exactly when the
  dimensionality is less than 1, or an entry lies outside [0, 1], or a trailing-axis sum
  differs from 1 by more than atol + rtol * 1 (1e-8 and 1e-5); otherwise it returns the
  logarithm of p divided by its trailing-axis sum. It fails for [0.5, 0.4], for [-0.1, 1.1]
  and for a 0-dimensional input.
\<close>

theorem moments_fails_iff_else_value:
  assumes "wf_array p"
  shows "((\<exists>msg. DirichletMoments_compute_fixed_moments np_log p = Inl (ValueError msg))
            \<longleftrightarrow> (ndim p < 1 \<or> (\<exists>x\<in>set (elems p). x < 0 \<or> 1 < x) \<or>
                 (\<exists>b<nrows p. \<not> \<bar>sum_list (row p b) - 1\<bar> \<le> atol + rtol * \<bar>1\<bar>))) \<and>
         (\<not> (ndim p < 1 \<or> (\<exists>x\<in>set (elems p). x < 0 \<or> 1 < x) \<or>
                 (\<exists>b<nrows p. \<not> \<bar>sum_list (row p b) - 1\<bar> \<le> atol + rtol * \<bar>1\<bar>)) \<longrightarrow>
            DirichletMoments_compute_fixed_moments np_log p = Inr [ufunc np_log (renormalized p)]) \<and>
         (\<exists>msg. DirichletMoments_compute_fixed_moments np_log \<lparr>shape = [2], elems = [1/2, 2/5]\<rparr>
            = Inl (ValueError msg)) \<and>
         (\<exists>msg. DirichletMoments_compute_fixed_moments np_log \<lparr>shape = [2], elems = [- (1/10), 11/10]\<rparr>
            = Inl (ValueError msg)) \<and>
         (\<exists>msg. DirichletMoments_compute_fixed_moments np_log \<lparr>shape = [], elems = [x]\<rparr>
            = Inl (ValueError msg))"
proof (intro conjI)
  show "(\<exists>msg. DirichletMoments_compute_fixed_moments np_log p = Inl (ValueError msg))
            \<longleftrightarrow> (ndim p < 1 \<or> (\<exists>x\<in>set (elems p). x < 0 \<or> 1 < x) \<or>
                 (\<exists>b<nrows p. \<not> \<bar>sum_list (row p b) - 1\<bar> \<le> atol + rtol * \<bar>1\<bar>))"
    by (auto simp add: moments_eval [OF assms])
  show "\<not> (ndim p < 1 \<or> (\<exists>x\<in>set (elems p). x < 0 \<or> 1 < x) \<or>
                 (\<exists>b<nrows p. \<not> \<bar>sum_list (row p b) - 1\<bar> \<le> atol + rtol * \<bar>1\<bar>)) \<longrightarrow>
            DirichletMoments_compute_fixed_moments np_log p = Inr [ufunc np_log (renormalized p)]"
    by (auto simp add: moments_eval [OF assms])
  show "\<exists>msg. DirichletMoments_compute_fixed_moments np_log \<lparr>shape = [2], elems = [1/2, 2/5]\<rparr>
            = Inl (ValueError msg)"
  proof -
    let ?q = "\<lparr>shape = [2], elems = [1/2, 2/5]\<rparr>"
    have wf: "wf_array ?q" by (simp add: wf_array_def)
    have "\<not> (\<forall>b<nrows ?q. \<bar>sum_list (row ?q b) - 1\<bar> \<le> atol + rtol)"
      by (simp add: nrows_def row_def axis_len_def atol_def rtol_def)
    then show ?thesis by (simp add: moments_eval [OF wf])
  qed
  show "\<exists>msg. DirichletMoments_compute_fixed_moments np_log \<lparr>shape = [2], elems = [- (1/10), 11/10]\<rparr>
            = Inl (ValueError msg)"
    by (simp add: DirichletMoments_compute_fixed_moments_def ndim_def any_less_def)
  show "\<exists>msg. DirichletMoments_compute_fixed_moments np_log \<lparr>shape = [], elems = [x]\<rparr>
            = Inl (ValueError msg)"
    by (simp add: DirichletMoments_compute_fixed_moments_def ndim_def)
qed

theorem moments_fails_iff_else_value_witness:
  "DirichletMoments_compute_fixed_moments ln \<lparr>shape = [2, 2], elems = [1/2, 1/2, 1/4, 3/4]\<rparr> =
     Inr [\<lparr>shape = [2, 2], elems = [ln (1/2), ln (1/2), ln (1/4), ln (3/4)]\<rparr>]"
proof -
  let ?p = "\<lparr>shape = [2, 2], elems = [1/2, 1/2, 1/4, 3/4]\<rparr>"
  have wf: "wf_array ?p" by (simp add: wf_array_def)
  have sums: "\<forall>b<nrows ?p. \<bar>sum_list (row ?p b) - 1\<bar> \<le> atol + rtol * \<bar>1\<bar>"
    by (simp add: nrows_def row_def axis_len_def atol_def rtol_def less_Suc_eq numeral_2_eq_2)
  have ok: "\<not> (ndim ?p < 1 \<or> (\<exists>x\<in>set (elems ?p). x < 0 \<or> 1 < x) \<or>
                 (\<exists>b<nrows ?p. \<not> \<bar>sum_list (row ?p b) - 1\<bar> \<le> atol + rtol * \<bar>1\<bar>))"
    using sums by (simp add: ndim_def)
  show ?thesis
    using moments_fails_iff_else_value [OF wf, of ln] ok
    by (simp add: row_def axis_len_def upt_rec renormalized_def ufunc_def)
qed

text \<open>
  C6. DirichletPriorMoments.compute_fixed_moments fails with ValueError exactly when the
  dimensionality is less than 1 or an entry is negative; otherwise it returns [alpha, z]
  where z has the leading axes of alpha and holds, for each trailing-axis vector, gammaln of
  its sum minus the sum of gammaln of its entries.
\<close>

theorem prior_moments_fails_iff_else_value:
  assumes "wf_array alpha"
  shows "((\<exists>msg. DirichletPriorMoments_compute_fixed_moments gammaln alpha = Inl (ValueError msg))
            \<longleftrightarrow> (ndim alpha < 1 \<or> (\<exists>x\<in>set (elems alpha). x < 0))) \<and>
         (\<not> (ndim alpha < 1 \<or> (\<exists>x\<in>set (elems alpha). x < 0)) \<longrightarrow>
            DirichletPriorMoments_compute_fixed_moments gammaln alpha =
              Inr [alpha,
                   \<lparr>shape = butlast (shape alpha),
                    elems = map (\<lambda>b. gammaln (sum_list (row alpha b))
                                       - sum_list (map gammaln (row alpha b)))
                                [0..<nrows alpha]\<rparr>])"
  by (simp add: prior_moments_eval [OF assms])

theorem prior_moments_fails_iff_else_value_witness:
  "DirichletPriorMoments_compute_fixed_moments (\<lambda>x. x * x) \<lparr>shape = [2, 2], elems = [1, 2, 3, 4]\<rparr> =
     Inr [\<lparr>shape = [2, 2], elems = [1, 2, 3, 4]\<rparr>, \<lparr>shape = [2], elems = [4, 24]\<rparr>]"
proof -
  let ?a = "\<lparr>shape = [2, 2], elems = [1, 2, 3, 4]\<rparr>"
  have wf: "wf_array ?a" by (simp add: wf_array_def)
  have ok: "\<not> (ndim ?a < 1 \<or> (\<exists>x\<in>set (elems ?a). x < 0))" by (simp add: ndim_def)
  show ?thesis
    using prior_moments_fails_iff_else_value [OF wf, of "\<lambda>x. x * x"] ok
    by (simp add: row_def axis_len_def nrows_def upt_rec)
qed




text \<open>
  C8. Whatever the parent, the index and the two moment lists are,
  compute_message_to_parent fails with the not-implemented error and returns no value.
\<close>

theorem compute_message_to_parent_not_implemented:
  "compute_message_to_parent parent index u_self u_alpha = Inl NotImplementedError \<and>
   (\<nexists>r. compute_message_to_parent parent index u_self u_alpha = Inr r)"
  by (simp add: compute_message_to_parent_def)

text \<open>
  C9, as the code has it. The operations that check their argument fail with ValueError
  on an argument they refuse and return no result: DirichletPriorMoments.compute_fixed_moments
  (dimensionality less than 1, negative entry), DirichletMoments.compute_fixed_moments and
  compute_fixed_moments_and_f (dimensionality less than 1, entry outside [0, 1], sum not
  within the tolerance of 1) and compute_moments_and_cgf (entry of phi[0] not positive).
  compute_gradient checks nothing: for g[0] of the shape of phi[0] it returns the product
  with the polygamma differences whatever the sign of the entries of phi[0].
\<close>

theorem invalid_arguments_detected_where_checked:
  assumes "wf_array a"
  shows "(ndim a < 1 \<or> (\<exists>x\<in>set (elems a). x < 0) \<longrightarrow>
            (\<exists>msg. DirichletPriorMoments_compute_fixed_moments gammaln a = Inl (ValueError msg))) \<and>
         (ndim a < 1 \<or> (\<exists>x\<in>set (elems a). x < 0 \<or> 1 < x) \<or>
            (\<exists>b<nrows a. \<not> \<bar>sum_list (row a b) - 1\<bar> \<le> atol + rtol * \<bar>1\<bar>) \<longrightarrow>
            (\<exists>msg. DirichletMoments_compute_fixed_moments np_log a = Inl (ValueError msg)) \<and>
            (\<exists>msg. compute_fixed_moments_and_f np_log a mask' = Inl (ValueError msg))) \<and>
         ((\<exists>x\<in>set (elems a). x \<le> 0) \<longrightarrow>
            (\<exists>msg. compute_moments_and_cgf psi gammaln [a] mask' = Inl (ValueError msg))) \<and>
         (shape g0 = shape a \<longrightarrow>
            compute_gradient polygamma (g0 # gs) u (a # phis) =
              Inr [\<lparr>shape = shape a,
                    elems = map (\<lambda>i. elems g0 ! i *
                                       (polygamma 1 (elems a ! i)
                                          - polygamma 1 (sum_list (row a (i div axis_len a)))))
                                [0..<length (elems a)]\<rparr>])"
proof (intro conjI impI)
  assume "ndim a < 1 \<or> (\<exists>x\<in>set (elems a). x < 0)"
  then show "\<exists>msg. DirichletPriorMoments_compute_fixed_moments gammaln a = Inl (ValueError msg)"
    by (auto simp add: prior_moments_eval [OF assms])
next
  assume bad: "ndim a < 1 \<or> (\<exists>x\<in>set (elems a). x < 0 \<or> 1 < x) \<or>
            (\<exists>b<nrows a. \<not> \<bar>sum_list (row a b) - 1\<bar> \<le> atol + rtol * \<bar>1\<bar>)"
  then show "\<exists>msg. DirichletMoments_compute_fixed_moments np_log a = Inl (ValueError msg)"
    by (auto simp add: moments_eval [OF assms])
  from bad show "\<exists>msg. compute_fixed_moments_and_f np_log a mask' = Inl (ValueError msg)"
    by (auto simp add: fixed_moments_and_f_eval [OF assms])
next
  assume "\<exists>x\<in>set (elems a). x \<le> 0"
  then show "\<exists>msg. compute_moments_and_cgf psi gammaln [a] mask' = Inl (ValueError msg)"
    by (simp add: moments_and_cgf_fails)
next
  assume "shape g0 = shape a"
  then show "compute_gradient polygamma (g0 # gs) u (a # phis) =
              Inr [\<lparr>shape = shape a,
                    elems = map (\<lambda>i. elems g0 ! i *
                                       (polygamma 1 (elems a ! i)
                                          - polygamma 1 (sum_list (row a (i div axis_len a)))))
                                [0..<length (elems a)]\<rparr>]"
    by (rule gradient_same_shape [OF assms])
qed

theorem invalid_arguments_detected_where_checked_witness:
  "(\<exists>msg. DirichletPriorMoments_compute_fixed_moments (\<lambda>x. x * x) \<lparr>shape = [2], elems = [- 1, 2]\<rparr>
      = Inl (ValueError msg)) \<and>
   (\<exists>msg. DirichletMoments_compute_fixed_moments ln \<lparr>shape = [2], elems = [- 1, 2]\<rparr>
      = Inl (ValueError msg)) \<and>
   (\<exists>msg. compute_fixed_moments_and_f ln \<lparr>shape = [2], elems = [- 1, 2]\<rparr> True
      = Inl (ValueError msg)) \<and>
   (\<exists>msg. compute_moments_and_cgf (\<lambda>x. 2 * x) (\<lambda>x. x * x) [\<lparr>shape = [2], elems = [- 1, 2]\<rparr>] True
      = Inl (ValueError msg)) \<and>
   compute_gradient (\<lambda>n x. real n * x) [\<lparr>shape = [2], elems = [1, 1]\<rparr>] True
       [\<lparr>shape = [2], elems = [- 1, 2]\<rparr>] =
     Inr [\<lparr>shape = [2], elems = [- 2, 1]\<rparr>]"
proof -
  let ?a = "\<lparr>shape = [2], elems = [- 1, 2]\<rparr>"
  have wf: "wf_array ?a" by (simp add: wf_array_def)
  show ?thesis
    using invalid_arguments_detected_where_checked
      [OF wf, of "\<lambda>x. x * x" ln True "\<lambda>x. 2 * x" "\<lparr>shape = [2], elems = [1, 1]\<rparr>"
         "\<lambda>n x. real n * x" "[]" True "[]"]
    by (simp add: row_def axis_len_def upt_rec)
qed

text \<open>
  C9 as stated fails: for phi[0] = [0, 2, 3], which compute_moments_and_cgf refuses,
  compute_gradient returns a value instead of an invalid-argument error.
\<close>

theorem compute_gradient_unchecked_counterexample:
  "compute_gradient (\<lambda>n x. real n * x) [\<lparr>shape = [3], elems = [1, 1, 1]\<rparr>] True
       [\<lparr>shape = [3], elems = [0, 2, 3]\<rparr>] =
     Inr [\<lparr>shape = [3], elems = [- 5, - 3, - 2]\<rparr>]"
proof -
  have wf: "wf_array \<lparr>shape = [3], elems = [0, 2, 3]\<rparr>" by (simp add: wf_array_def)
  show ?thesis by (simp add: gradient_same_shape [OF wf] row_def axis_len_def upt_rec)
qed

text \<open>
  C10. DirichletMoments.compute_fixed_moments and compute_fixed_moments_and_f leave every
  array that exists before the call as it is (the arrays they make are placed behind the
  existing ones); in particular the array at the address they are given holds the same
  shape and entries after the call.
\<close>

theorem fixed_moments_do_not_mutate_input:
  "take (length st) (snd (DirichletMoments_compute_fixed_moments_st np_log p st)) = st \<and>
   take (length st) (snd (compute_fixed_moments_and_f_st np_log p mask' st)) = st \<and>
   (p < length st \<longrightarrow>
      snd (DirichletMoments_compute_fixed_moments_st np_log p st) ! p = st ! p \<and>
      snd (compute_fixed_moments_and_f_st np_log p mask' st) ! p = st ! p)"
proof (intro conjI impI)
  show f1: "take (length st) (snd (DirichletMoments_compute_fixed_moments_st np_log p st)) = st"
    by (rule moments_st_frame)
  show f2: "take (length st) (snd (compute_fixed_moments_and_f_st np_log p mask' st)) = st"
    by (rule fixed_moments_and_f_st_frame)
  assume p: "p < length st"
  have "take (length st) (snd (DirichletMoments_compute_fixed_moments_st np_log p st)) ! p =
      snd (DirichletMoments_compute_fixed_moments_st np_log p st) ! p"
    using p by (rule nth_take)
  then show "snd (DirichletMoments_compute_fixed_moments_st np_log p st) ! p = st ! p"
    by (simp add: f1)
  have "take (length st) (snd (compute_fixed_moments_and_f_st np_log p mask' st)) ! p =
      snd (compute_fixed_moments_and_f_st np_log p mask' st) ! p"
    using p by (rule nth_take)
  then show "snd (compute_fixed_moments_and_f_st np_log p mask' st) ! p = st ! p"
    by (simp add: f2)
qed

theorem fixed_moments_do_not_mutate_input_witness:
  "DirichletMoments_compute_fixed_moments_st ln 0 [\<lparr>shape = [2], elems = [1/2, 1/2]\<rparr>] =
     (Inr [2],
      [\<lparr>shape = [2], elems = [1/2, 1/2]\<rparr>,
       \<lparr>shape = [2], elems = [1/2, 1/2]\<rparr>,
       \<lparr>shape = [2], elems = [ln (1/2), ln (1/2)]\<rparr>]) \<and>
   snd (DirichletMoments_compute_fixed_moments_st ln 0 [\<lparr>shape = [2], elems = [1/2, 1/2]\<rparr>]) ! 0 =
     \<lparr>shape = [2], elems = [1/2, 1/2]\<rparr> \<and>
   snd (compute_fixed_moments_and_f_st ln 0 True [\<lparr>shape = [2], elems = [1/2, 1/2]\<rparr>]) ! 0 =
     \<lparr>shape = [2], elems = [1/2, 1/2]\<rparr>"
proof -
  let ?p = "\<lparr>shape = [2], elems = [1/2, 1/2]\<rparr>"
  have wf: "wf_array ?p" by (simp add: wf_array_def)
  have run: "DirichletMoments_compute_fixed_moments_st ln 0 [?p] =
     (Inr [2], [?p, ?p, \<lparr>shape = [2], elems = [ln (1/2), ln (1/2)]\<rparr>])"
    by (simp add: DirichletMoments_compute_fixed_moments_st_def ndim_def any_less_def
        any_greater_def allclose_rowsums [OF wf] divide_rowsum [OF wf] alloc_def
        nrows_def row_def axis_len_def atol_def rtol_def renormalized_def ufunc_def upt_rec)
  show ?thesis
    using fixed_moments_do_not_mutate_input [of "[?p]" ln 0 True] run
    by simp
qed

end
